theory Spec2Isabelle
  imports Main
begin

section \<open>The fedora package of disadis: data model\<close>

text \<open>
  Go strings and byte slices are byte sequences; both are modelled as \<open>string\<close>
  (a list of 8-bit characters). Go's \<open>int\<close> is taken to be 64 bits wide.
\<close>

text \<open>
  The error values of the package. \<open>ErrNotFound\<close> and \<open>ErrNotAuthorized\<close> are the two
  exported sentinels; \<open>Errorf\<close> is an error built by \<open>fmt.Errorf\<close>, carrying its formatted
  message; \<open>LibError\<close> is an error handed back by \<open>net/http\<close> or \<open>encoding/xml\<close>.
\<close>

datatype error =
    ErrNotFound
  | ErrNotAuthorized
  | Errorf string
  | LibError string

text \<open>A run-time panic of Go: indexing a string at \<open>index\<close> when its length is \<open>len\<close>.\<close>

datatype panic = IndexOutOfRange int nat

record ContentInfo =
  Type :: string
  Length :: string
  Disposition :: string
  MD5 :: string
  SHA256 :: string

record DsInfo =
  Label :: string
  VersionID :: string
  State :: string
  Checksum :: string
  MIMEType :: string
  Location :: string
  LocationType :: string
  Size :: string

text \<open>The zero values of the two structs: every field the empty string.\<close>

definition ContentInfo_zero :: ContentInfo where
  "ContentInfo_zero =
     \<lparr>Type = [], Length = [], Disposition = [], MD5 = [], SHA256 = []\<rparr>"

definition DsInfo_zero :: DsInfo where
  "DsInfo_zero =
     \<lparr>Label = [], VersionID = [], State = [], Checksum = [], MIMEType = [],
      Location = [], LocationType = [], Size = []\<rparr>"

section \<open>Formatting and parsing decimal integers\<close>

text \<open>
  \<open>fmt_d\<close> is what the verb \<open>%d\<close> of \<open>fmt.Sprintf\<close> and \<open>fmt.Errorf\<close> prints for an
  \<open>int\<close>: the decimal digits, most significant first, after a minus sign when negative.
\<close>

definition digit_char :: "nat \<Rightarrow> char" where
  "digit_char d = char_of (48 + d)"

function decimal :: "nat \<Rightarrow> string" where
  "decimal n = (if n < 10 then [digit_char n] else decimal (n div 10) @ [digit_char (n mod 10)])"
  by pat_completeness auto
termination
  by (relation "measure (\<lambda>n. n)") auto

declare decimal.simps [simp del]

definition fmt_d :: "int \<Rightarrow> string" where
  "fmt_d i = (if i < 0 then CHR ''-'' # decimal (nat (- i)) else decimal (nat i))"

text \<open>
  \<open>strconv.Atoi\<close> is \<open>ParseInt(s, 10, 0)\<close>: an optional sign, then \<open>ParseUint\<close> on the rest
  in base 10 for 64 bits, then the range check of the signed type. \<open>ParseUint_loop\<close> is
  the digit loop of \<open>ParseUint\<close> with its two overflow checks; the \<open>uint64\<close> accumulator
  is an \<open>int\<close> here, and the checks are the ones that keep it below \<open>2 ^ 64\<close>.
\<close>

datatype NumError = ErrSyntax | ErrRange

definition maxUint64 :: int where
  "maxUint64 = 18446744073709551615"

definition isDigit :: "char \<Rightarrow> bool" where
  "isDigit c = (48 \<le> (of_char c :: int) \<and> (of_char c :: int) \<le> 57)"

fun ParseUint_loop :: "string \<Rightarrow> int \<Rightarrow> NumError + int" where
  "ParseUint_loop [] n = Inr n"
| "ParseUint_loop (c # cs) n =
     (if \<not> isDigit c then Inl ErrSyntax
      else if n \<ge> maxUint64 div 10 + 1 then Inl ErrRange
      else if n * 10 + (of_char c - 48) > maxUint64 then Inl ErrRange
      else ParseUint_loop cs (n * 10 + (of_char c - 48)))"

definition ParseUint :: "string \<Rightarrow> NumError + int" where
  "ParseUint s = (if s = [] then Inl ErrSyntax else ParseUint_loop s 0)"

definition ParseInt :: "string \<Rightarrow> NumError + int" where
  "ParseInt s =
     (if s = [] then Inl ErrSyntax
      else
        let neg = (hd s = CHR ''-'');
            s1 = (if hd s = CHR ''+'' \<or> hd s = CHR ''-'' then tl s else s)
        in case ParseUint s1 of
             Inl e \<Rightarrow> Inl e
           | Inr un \<Rightarrow>
               if \<not> neg \<and> un \<ge> 2 ^ 63 then Inl ErrRange
               else if neg \<and> un > 2 ^ 63 then Inl ErrRange
               else Inr (if neg then - un else un))"

definition Atoi :: "string \<Rightarrow> NumError + int" where
  "Atoi s = ParseInt s"

text \<open>
  What a valid integer is, in the words of the documentation of \<open>strconv\<close>: an optional
  sign \<open>+\<close> or \<open>-\<close>, then at least one decimal digit and nothing else, denoting a value
  that a 64-bit \<open>int\<close> can hold. \<open>integer_value\<close> is the value so denoted.
\<close>

definition digit_step :: "int \<Rightarrow> char \<Rightarrow> int" where
  "digit_step n c = n * 10 + (of_char c - 48)"

definition digits_value :: "string \<Rightarrow> int" where
  "digits_value ds = foldl digit_step 0 ds"

fun unsigned_part :: "string \<Rightarrow> string" where
  "unsigned_part [] = []"
| "unsigned_part (c # cs) = (if c = CHR ''+'' \<or> c = CHR ''-'' then cs else c # cs)"

fun is_negative :: "string \<Rightarrow> bool" where
  "is_negative [] = False"
| "is_negative (c # cs) = (c = CHR ''-'')"

definition integer_value :: "string \<Rightarrow> int" where
  "integer_value s =
     (if is_negative s then - digits_value (unsigned_part s) else digits_value (unsigned_part s))"

definition valid_integer :: "string \<Rightarrow> bool" where
  "valid_integer s =
     (unsigned_part s \<noteq> [] \<and> list_all isDigit (unsigned_part s)
      \<and> - (2 ^ 63) \<le> integer_value s \<and> integer_value s < 2 ^ 63)"

text \<open>
  \<open>strings.LastIndex(s, ".")\<close> with a one-byte separator scans \<open>s\<close> from its last byte
  down to its first and returns the first position that holds the byte, or \<open>-1\<close>.
\<close>

fun LastIndex_from :: "string \<Rightarrow> char \<Rightarrow> nat \<Rightarrow> int" where
  "LastIndex_from s c 0 = - 1"
| "LastIndex_from s c (Suc i) = (if s ! i = c then int i else LastIndex_from s c i)"

definition LastIndex :: "string \<Rightarrow> char \<Rightarrow> int" where
  "LastIndex s c = LastIndex_from s c (length s)"

section \<open>DsInfo.Version\<close>

definition DsInfo_Version :: "DsInfo \<Rightarrow> int" where
  "DsInfo_Version info =
     (let i = LastIndex (VersionID info) (CHR ''.'')
      in if i = - 1 then - 1
         else case Atoi (drop (nat (i + 1)) (VersionID info)) of
                Inl e \<Rightarrow> - 1
              | Inr version \<Rightarrow> version)"

section \<open>The remote client\<close>

record remoteFedora =
  hostpath :: string
  namespace :: string

definition NewRemote :: "string \<Rightarrow> string \<Rightarrow> panic + remoteFedora" where
  "NewRemote fedoraPath ns =
     (let rf = \<lparr>hostpath = fedoraPath, namespace = ns\<rparr>
      in if length (hostpath rf) = 0
         then Inl (IndexOutOfRange (int (length (hostpath rf)) - 1) (length (hostpath rf)))
         else if hostpath rf ! (length (hostpath rf) - 1) \<noteq> CHR ''/''
         then Inr (rf\<lparr>hostpath := hostpath rf @ ''/''\<rparr>)
         else Inr rf)"

text \<open>
  The network. A response body is a connection (named by a number) with the bytes it
  will deliver. An \<open>io.ReadCloser\<close> handed to a caller is either such a body or the
  \<open>ioutil.NopCloser(bytes.NewReader(b))\<close> of the test store. The world holds what the
  server answers to a GET of each URL, the URLs requested so far and the connections
  closed so far, in order.
\<close>

record httpBody =
  conn :: nat
  payload :: string

datatype ReadCloser = ResponseBody httpBody | NopCloser string

fun ReadAll :: "ReadCloser \<Rightarrow> string" where
  "ReadAll (ResponseBody b) = payload b"
| "ReadAll (NopCloser b) = b"

record response =
  StatusCode :: int
  Header :: "string \<rightharpoonup> string"
  Body :: httpBody

record world =
  server :: "string \<Rightarrow> error + response"
  requested :: "string list"
  closed :: "nat list"

definition http_Get :: "string \<Rightarrow> world \<Rightarrow> (error + response) \<times> world" where
  "http_Get url w = (server w url, w\<lparr>requested := requested w @ [url]\<rparr>)"

definition Body_Close :: "httpBody \<Rightarrow> world \<Rightarrow> world" where
  "Body_Close b w = w\<lparr>closed := closed w @ [conn b]\<rparr>"

text \<open>\<open>Header.Get\<close>: the value stored under the key, the empty string when there is none.\<close>

definition Header_Get :: "(string \<rightharpoonup> string) \<Rightarrow> string \<Rightarrow> string" where
  "Header_Get h k = (case h k of None \<Rightarrow> [] | Some v \<Rightarrow> v)"

text \<open>
  Both methods return all their results together, as the Go functions do: the stream (if
  any), the metadata and the error (if any), next to the world after the call.
\<close>

definition remoteFedora_GetDatastream ::
  "remoteFedora \<Rightarrow> string \<Rightarrow> string \<Rightarrow> world
     \<Rightarrow> (ReadCloser option \<times> ContentInfo \<times> error option) \<times> world" where
  "remoteFedora_GetDatastream rf oid dsname w =
     (let path = hostpath rf @ ''objects/'' @ namespace rf @ oid @ ''/datastreams/''
                   @ dsname @ ''/content'';
          info = ContentInfo_zero
      in case http_Get path w of
           (Inl err, w1) \<Rightarrow> ((None, info, Some err), w1)
         | (Inr r, w1) \<Rightarrow>
             if StatusCode r \<noteq> 200 then
               let w2 = Body_Close (Body r) w1
               in if StatusCode r = 404 then ((None, info, Some ErrNotFound), w2)
                  else if StatusCode r = 401 then ((None, info, Some ErrNotAuthorized), w2)
                  else ((None, info,
                         Some (Errorf (''Received status '' @ fmt_d (StatusCode r)
                                         @ '' from fedora''))), w2)
             else
               ((Some (ResponseBody (Body r)),
                 info\<lparr>Type := Header_Get (Header r) ''Content-Type'',
                      Length := Header_Get (Header r) ''Content-Length'',
                      Disposition := Header_Get (Header r) ''Content-Disposition'',
                      MD5 := Header_Get (Header r) ''X-Content-Md5'',
                      SHA256 := Header_Get (Header r) ''X-Content-Sha256''\<rparr>,
                 None), w1))"

text \<open>
  \<open>encoding/xml\<close> is not part of the package: the decoder is a parameter. It is given the
  bytes of the body and the struct to fill, and returns the struct as it has left it and
  its error, if any.
\<close>

type_synonym xmlDecoder = "string \<Rightarrow> DsInfo \<Rightarrow> DsInfo \<times> error option"

definition remoteFedora_GetDatastreamInfo ::
  "xmlDecoder \<Rightarrow> remoteFedora \<Rightarrow> string \<Rightarrow> string \<Rightarrow> world
     \<Rightarrow> (DsInfo \<times> error option) \<times> world" where
  "remoteFedora_GetDatastreamInfo Decode rf oid dsname w =
     (let path = hostpath rf @ ''objects/'' @ namespace rf @ oid @ ''/datastreams/''
                   @ dsname @ ''?format=xml'';
          info = DsInfo_zero
      in case http_Get path w of
           (Inl err, w1) \<Rightarrow> ((info, Some err), w1)
         | (Inr r, w1) \<Rightarrow>
             if StatusCode r \<noteq> 200 then
               let w2 = Body_Close (Body r) w1
               in if StatusCode r = 404 then ((info, Some ErrNotFound), w2)
                  else if StatusCode r = 401 then ((info, Some ErrNotAuthorized), w2)
                  else ((info,
                         Some (Errorf (''Received status '' @ fmt_d (StatusCode r)
                                         @ '' from fedora''))), w2)
             else
               let (info1, err) = Decode (payload (Body r)) info;
                   w2 = Body_Close (Body r) w1;
                   info2 = (if Checksum info1 = ''none'' then info1\<lparr>Checksum := []\<rparr>
                            else info1)
               in ((info2, err), w2))"

section \<open>The in-memory store\<close>

record dsPair =
  info :: DsInfo
  content :: string

record TestFedora =
  data :: "string \<rightharpoonup> dsPair"

definition NewTestFedora :: TestFedora where
  "NewTestFedora = \<lparr>data = Map.empty\<rparr>"

definition TestFedora_GetDatastream ::
  "TestFedora \<Rightarrow> string \<Rightarrow> string \<Rightarrow> ReadCloser option \<times> ContentInfo \<times> error option" where
  "TestFedora_GetDatastream tf oid dsname =
     (let ci = ContentInfo_zero;
          key = oid @ ''/'' @ dsname
      in case data tf key of
           None \<Rightarrow> (None, ci, Some ErrNotFound)
         | Some v \<Rightarrow>
             (Some (NopCloser (content v)),
              ci\<lparr>Type := ''text/plain'', Length := Size (info v)\<rparr>,
              None))"

definition TestFedora_GetDatastreamInfo ::
  "TestFedora \<Rightarrow> string \<Rightarrow> string \<Rightarrow> DsInfo \<times> error option" where
  "TestFedora_GetDatastreamInfo tf oid dsname =
     (let key = oid @ ''/'' @ dsname
      in case data tf key of
           None \<Rightarrow> (DsInfo_zero, Some ErrNotFound)
         | Some v \<Rightarrow> (info v, None))"

definition TestFedora_Set ::
  "TestFedora \<Rightarrow> string \<Rightarrow> string \<Rightarrow> DsInfo \<Rightarrow> string \<Rightarrow> TestFedora" where
  "TestFedora_Set tf oid dsname dsinfo val =
     (let i1 = (if State dsinfo = [] then dsinfo\<lparr>State := ''A''\<rparr> else dsinfo);
          i2 = (if VersionID i1 = [] then i1\<lparr>VersionID := dsname @ ''.0''\<rparr> else i1);
          i3 = (if Location i2 = []
                then i2\<lparr>Location := oid @ ''+'' @ dsname @ ''+'' @ VersionID i2\<rparr> else i2);
          i4 = (if LocationType i3 = [] then i3\<lparr>LocationType := ''INTERNAL_ID''\<rparr> else i3);
          i5 = (if Size i4 = [] then i4\<lparr>Size := fmt_d (int (length val))\<rparr> else i4);
          key = oid @ ''/'' @ dsname
      in tf\<lparr>data := (data tf)(key \<mapsto> \<lparr>info = i5, content = val\<rparr>)\<rparr>)"

text \<open>
  A store reached from another by a sequence of \<open>Set\<close> calls, each given as
  \<open>(id, dsname, info, value)\<close>.
\<close>

fun Set_all :: "TestFedora \<Rightarrow> (string \<times> string \<times> DsInfo \<times> string) list \<Rightarrow> TestFedora" where
  "Set_all tf [] = tf"
| "Set_all tf ((oid, dsname, dsinfo, val) # calls) =
     Set_all (TestFedora_Set tf oid dsname dsinfo val) calls"

section \<open>Concrete environments\<close>

text \<open>
  Two concrete environments for the examples below: a server that gives the same answer
  to every URL, and a decoder with a given outcome (the struct as the decoder leaves it,
  and its error) on the body it is handed.
\<close>

definition server_always :: "error + response \<Rightarrow> string \<Rightarrow> error + response" where
  "server_always answer url = answer"

definition Decode_outcome :: "DsInfo \<times> error option \<Rightarrow> xmlDecoder" where
  "Decode_outcome outcome b dsinfo = outcome"

section \<open>Facts about the library functions\<close>

text \<open>
  \<open>LastIndex\<close> finds the last occurrence of the separator, \<open>Atoi\<close> reads back what
  \<open>%d\<close> prints for every value of a 64-bit \<open>int\<close>.
\<close>

lemma LastIndex_from_absent:
  "k \<le> length s \<Longrightarrow> c \<notin> set (take k s) \<Longrightarrow> LastIndex_from s c k = - 1"
proof (induction k)
  case 0
  then show ?case by simp
next
  case (Suc k)
  then have "s ! k \<noteq> c" and "c \<notin> set (take k s)"
    by (auto simp: take_Suc_conv_app_nth)
  with Suc show ?case by simp
qed

lemma LastIndex_from_found:
  "j < k \<Longrightarrow> k \<le> length s \<Longrightarrow> s ! j = c \<Longrightarrow> (\<forall>i. j < i \<and> i < k \<longrightarrow> s ! i \<noteq> c)
     \<Longrightarrow> LastIndex_from s c k = int j"
proof (induction k)
  case 0
  then show ?case by simp
next
  case (Suc k)
  show ?case
  proof (cases "j = k")
    case True
    with Suc.prems show ?thesis by simp
  next
    case False
    with Suc.prems have "j < k" and "s ! k \<noteq> c" by auto
    with Suc show ?thesis by simp
  qed
qed

lemma LastIndex_absent: "c \<notin> set s \<Longrightarrow> LastIndex s c = - 1"
  by (simp add: LastIndex_def LastIndex_from_absent)

lemma LastIndex_split:
  assumes "c \<notin> set suf"
  shows "LastIndex (pre @ c # suf) c = int (length pre)"
proof -
  have "\<forall>i. length pre < i \<and> i < length (pre @ c # suf) \<longrightarrow> (pre @ c # suf) ! i \<noteq> c"
  proof (intro allI impI)
    fix i
    assume h: "length pre < i \<and> i < length (pre @ c # suf)"
    then obtain m where "i = Suc (length pre + m)"
      using less_imp_Suc_add by blast
    with h have m: "i = length pre + Suc m" "m < length suf"
      by simp_all
    then have "(pre @ c # suf) ! i = suf ! m"
      by (simp add: nth_append)
    with m assms show "(pre @ c # suf) ! i \<noteq> c"
      by (metis nth_mem)
  qed
  then show ?thesis
    unfolding LastIndex_def
    by (intro LastIndex_from_found) auto
qed

lemma digit_char_values:
  "digit_char 0 = CHR ''0''" "digit_char 1 = CHR ''1''" "digit_char 2 = CHR ''2''"
  "digit_char 3 = CHR ''3''" "digit_char 4 = CHR ''4''" "digit_char 5 = CHR ''5''"
  "digit_char 6 = CHR ''6''" "digit_char 7 = CHR ''7''" "digit_char 8 = CHR ''8''"
  "digit_char 9 = CHR ''9''"
  by code_simp+

lemma of_char_digit_char: "d < 10 \<Longrightarrow> (of_char (digit_char d) :: int) = 48 + int d"
proof -
  assume d: "d < 10"
  have "(of_char (digit_char d) :: nat) = (48 + d) mod 256"
    unfolding digit_char_def by (rule of_char_of)
  also have "\<dots> = 48 + d" using d by simp
  finally have "int (of_char (digit_char d)) = int (48 + d)" by (rule arg_cong)
  then show ?thesis by (simp only: of_nat_of_char of_nat_add of_nat_numeral)
qed

lemma digit_char_isDigit: "d < 10 \<Longrightarrow> isDigit (digit_char d)"
  by (simp add: isDigit_def of_char_digit_char)

lemma ParseUint_loop_snoc:
  "ParseUint_loop (cs @ [c]) n =
     (case ParseUint_loop cs n of Inl e \<Rightarrow> Inl e | Inr m \<Rightarrow> ParseUint_loop [c] m)"
  by (induction cs arbitrary: n) auto

lemma decimal_digits: "c \<in> set (decimal n) \<Longrightarrow> isDigit c"
proof (induction n rule: decimal.induct)
  case (1 n)
  then show ?case
    by (subst (asm) decimal.simps) (auto simp: digit_char_isDigit split: if_splits)
qed

lemma decimal_nonempty: "decimal n \<noteq> []"
  by (subst decimal.simps) simp

lemma ParseUint_loop_decimal:
  "int n \<le> maxUint64 \<Longrightarrow> ParseUint_loop (decimal n) 0 = Inr (int n)"
proof (induction n rule: decimal.induct)
  case (1 n)
  show ?case
  proof (cases "n < 10")
    case True
    then show ?thesis
      by (subst decimal.simps)
         (simp add: digit_char_isDigit of_char_digit_char maxUint64_def)
  next
    case False
    from "1.prems" have le: "int (n div 10) \<le> maxUint64" by (simp add: maxUint64_def)
    have ih: "ParseUint_loop (decimal (n div 10)) 0 = Inr (int (n div 10))"
      using "1.IH" False le by simp
    have d: "n mod 10 < 10" by simp
    have "int (n div 10) * 10 + int (n mod 10) = int n"
      by (simp add: zdiv_int zmod_int)
    moreover have "int (n div 10) \<le> maxUint64 div 10"
      using "1.prems" by (simp add: maxUint64_def zdiv_int)
    ultimately show ?thesis
      using False "1.prems" ih
      by (subst decimal.simps)
         (simp add: ParseUint_loop_snoc digit_char_isDigit [OF d] of_char_digit_char [OF d])
  qed
qed

lemma isDigit_not_sign: "isDigit c \<Longrightarrow> c \<noteq> CHR ''+'' \<and> c \<noteq> CHR ''-''"
  by (auto simp: isDigit_def)

lemma hd_decimal_not_sign: "hd (decimal n) \<noteq> CHR ''+'' \<and> hd (decimal n) \<noteq> CHR ''-''"
  using decimal_digits [of "hd (decimal n)" n] decimal_nonempty [of n] isDigit_not_sign
  by (metis hd_in_set)

lemma Atoi_fmt_d:
  assumes "- (2 ^ 63) \<le> i" and "i < 2 ^ 63"
  shows "Atoi (fmt_d i) = Inr i"
proof (cases "i < 0")
  case True
  with assms have "int (nat (- i)) \<le> maxUint64" by (simp add: maxUint64_def)
  then have "ParseUint_loop (decimal (nat (- i))) 0 = Inr (int (nat (- i)))"
    by (rule ParseUint_loop_decimal)
  with True assms show ?thesis
    by (simp add: Atoi_def ParseInt_def ParseUint_def fmt_d_def decimal_nonempty)
next
  case False
  with assms have "int (nat i) \<le> maxUint64" by (simp add: maxUint64_def)
  then have "ParseUint_loop (decimal (nat i)) 0 = Inr (int (nat i))"
    by (rule ParseUint_loop_decimal)
  with False assms show ?thesis
    using hd_decimal_not_sign [of "nat i"]
    by (simp add: Atoi_def ParseInt_def ParseUint_def fmt_d_def decimal_nonempty)
qed

text \<open>\<open>Atoi\<close> succeeds exactly on the valid integers, with their value.\<close>

lemma ParseUint_loop_Cons:
  "ParseUint_loop (c # cs) n =
     (if \<not> isDigit c then Inl ErrSyntax
      else if n \<ge> maxUint64 div 10 + 1 then Inl ErrRange
      else if digit_step n c > maxUint64 then Inl ErrRange
      else ParseUint_loop cs (digit_step n c))"
  by (simp add: digit_step_def)

lemma foldl_digits_ge:
  "list_all isDigit cs \<Longrightarrow> 0 \<le> n \<Longrightarrow> n \<le> foldl digit_step n cs"
proof (induction cs arbitrary: n)
  case Nil
  then show ?case by simp
next
  case (Cons c cs)
  then have "isDigit c" and cs: "list_all isDigit cs"
    by simp_all
  then have c: "48 \<le> (of_char c :: int)"
    by (simp add: isDigit_def)
  with Cons.prems have step: "n \<le> digit_step n c" by (simp add: digit_step_def)
  with Cons.prems have "0 \<le> digit_step n c" by simp
  with cs have "digit_step n c \<le> foldl digit_step (digit_step n c) cs"
    by (rule Cons.IH)
  with step show ?case by simp
qed

lemma ParseUint_loop_digits:
  "list_all isDigit cs \<Longrightarrow> 0 \<le> n
     \<Longrightarrow> foldl digit_step n cs \<le> maxUint64
     \<Longrightarrow> ParseUint_loop cs n = Inr (foldl digit_step n cs)"
proof (induction cs arbitrary: n)
  case Nil
  then show ?case by simp
next
  case (Cons c cs)
  let ?n' = "digit_step n c"
  from Cons.prems have c: "isDigit c" and cs: "list_all isDigit cs"
    by simp_all
  from c have d: "0 \<le> (of_char c :: int) - 48" by (simp add: isDigit_def)
  with Cons.prems have n': "0 \<le> ?n'" by (simp add: digit_step_def)
  have "?n' \<le> foldl digit_step ?n' cs"
    using cs n' by (rule foldl_digits_ge)
  with Cons.prems have le: "?n' \<le> maxUint64" by simp
  with d have "n * 10 \<le> maxUint64" by (simp add: digit_step_def)
  then have "n < maxUint64 div 10 + 1" by (simp add: maxUint64_def)
  moreover have "ParseUint_loop cs ?n' = Inr (foldl digit_step ?n' cs)"
    using Cons.IH [OF cs n'] Cons.prems by simp
  ultimately show ?case
    using c le by (simp add: ParseUint_loop_Cons del: ParseUint_loop.simps)
qed

lemma ParseUint_loop_Inr:
  "ParseUint_loop cs n = Inr m \<Longrightarrow> n \<le> maxUint64
     \<Longrightarrow> list_all isDigit cs \<and> m = foldl digit_step n cs
         \<and> m \<le> maxUint64"
proof (induction cs arbitrary: n)
  case Nil
  then show ?case by simp
next
  case (Cons c cs)
  let ?n' = "digit_step n c"
  from Cons.prems(1) have c: "isDigit c" and le: "?n' \<le> maxUint64"
    and rest: "ParseUint_loop cs ?n' = Inr m"
    by (simp_all add: ParseUint_loop_Cons del: ParseUint_loop.simps split: if_splits)
  from Cons.IH [OF rest le] c show ?case by simp
qed

lemma ParseUint_digits_value:
  "ParseUint s = Inr m \<longleftrightarrow>
     s \<noteq> [] \<and> list_all isDigit s \<and> digits_value s \<le> maxUint64 \<and> m = digits_value s"
proof
  assume "ParseUint s = Inr m"
  then have "s \<noteq> []" and "ParseUint_loop s 0 = Inr m"
    by (simp_all add: ParseUint_def split: if_splits)
  with ParseUint_loop_Inr [of s 0 m]
  show "s \<noteq> [] \<and> list_all isDigit s \<and> digits_value s \<le> maxUint64 \<and> m = digits_value s"
    by (simp add: digits_value_def maxUint64_def)
next
  assume "s \<noteq> [] \<and> list_all isDigit s \<and> digits_value s \<le> maxUint64 \<and> m = digits_value s"
  with ParseUint_loop_digits [of s 0]
  show "ParseUint s = Inr m"
    by (simp add: ParseUint_def digits_value_def)
qed

lemma digits_value_nonneg: "list_all isDigit s \<Longrightarrow> 0 \<le> digits_value s"
  using foldl_digits_ge [of s 0] by (simp add: digits_value_def)

lemma Atoi_valid: "valid_integer s \<Longrightarrow> Atoi s = Inr (integer_value s)"
proof -
  assume v: "valid_integer s"
  then obtain c cs where s: "s = c # cs"
    by (cases s) (auto simp: valid_integer_def)
  from v have "digits_value (unsigned_part s) \<le> maxUint64"
    by (auto simp: valid_integer_def integer_value_def maxUint64_def split: if_splits)
  with v have "ParseUint (unsigned_part s) = Inr (digits_value (unsigned_part s))"
    by (simp add: ParseUint_digits_value valid_integer_def)
  with v s show ?thesis
    by (auto simp: Atoi_def ParseInt_def Let_def valid_integer_def integer_value_def)
qed

lemma Atoi_invalid: "\<not> valid_integer s \<Longrightarrow> \<exists>e. Atoi s = Inl e"
proof (cases s)
  case Nil
  then show ?thesis by (simp add: Atoi_def ParseInt_def)
next
  case (Cons c cs)
  assume nv: "\<not> valid_integer s"
  show ?thesis
  proof (cases "ParseUint (unsigned_part s)")
    case (Inl e)
    with Cons show ?thesis
      by (auto simp: Atoi_def ParseInt_def Let_def)
  next
    case (Inr m)
    then have m: "unsigned_part s \<noteq> []" "list_all isDigit (unsigned_part s)"
      "m = digits_value (unsigned_part s)"
      by (simp_all add: ParseUint_digits_value)
    with digits_value_nonneg [of "unsigned_part s"] have "0 \<le> m" by simp
    with nv m have "(is_negative s \<and> m > 2 ^ 63) \<or> (\<not> is_negative s \<and> m \<ge> 2 ^ 63)"
      by (auto simp: valid_integer_def integer_value_def split: if_splits)
    with Cons Inr show ?thesis
      by (auto simp: Atoi_def ParseInt_def Let_def)
  qed
qed

lemma fmt_d_chars: "c \<in> set (fmt_d i) \<Longrightarrow> isDigit c \<or> c = CHR ''-''"
  by (auto simp: fmt_d_def decimal_digits split: if_splits)

lemma dot_not_in_fmt_d: "CHR ''.'' \<notin> set (fmt_d i)"
  using fmt_d_chars [of "CHR ''.''" i] by (auto simp: isDigit_def)

lemma DsInfo_Version_split:
  assumes "CHR ''.'' \<notin> set suf" and "VersionID d = pre @ CHR ''.'' # suf"
  shows "DsInfo_Version d = (case Atoi suf of Inl e \<Rightarrow> - 1 | Inr version \<Rightarrow> version)"
proof -
  have "LastIndex (VersionID d) (CHR ''.'') = int (length pre)"
    using assms by (simp add: LastIndex_split)
  moreover have "nat (int (length pre) + 1) = Suc (length pre)"
    by simp
  moreover have "drop (Suc (length pre)) (VersionID d) = suf"
    using assms by simp
  ultimately show ?thesis
    by (simp add: DsInfo_Version_def Let_def del: drop_Suc_Cons)
qed

text \<open>A \<open>Set\<close> changes the store under its own key only.\<close>

lemma Set_other_key:
  "k \<noteq> oid @ ''/'' @ dsname \<Longrightarrow>
     data (TestFedora_Set tf oid dsname dsinfo val) k = data tf k"
  by (simp add: TestFedora_Set_def Let_def)

lemma Set_all_other_keys:
  "\<forall>c \<in> set calls. fst c @ ''/'' @ fst (snd c) \<noteq> k \<Longrightarrow> data (Set_all tf calls) k = data tf k"
proof (induction calls arbitrary: tf)
  case Nil
  then show ?case by simp
next
  case (Cons call calls)
  obtain i n d v where call: "call = (i, n, d, v)"
    by (cases call) auto
  from Cons.prems call have k: "k \<noteq> i @ ''/'' @ n"
    by auto
  from Cons.prems have "\<forall>c \<in> set calls. fst c @ ''/'' @ fst (snd c) \<noteq> k"
    by simp
  then have "data (Set_all (TestFedora_Set tf i n d v) calls) k = data (TestFedora_Set tf i n d v) k"
    by (rule Cons.IH)
  also have "\<dots> = data tf k"
    using k by (rule Set_other_key)
  finally show ?case
    using call by simp
qed

section \<open>The version number of a datastream\<close>

text \<open>
  Claim C3. \<open>Version()\<close> depends on \<open>VersionID\<close> only. It is \<open>-1\<close> when \<open>VersionID\<close>
  holds no \<open>.\<close>; when \<open>VersionID\<close> is a name, a \<open>.\<close> and a suffix without \<open>.\<close> (the
  suffix after the last \<open>.\<close>), it is the value of the suffix if that is a valid integer
  and \<open>-1\<close> otherwise. In particular it is \<open>N\<close> when the suffix is the decimal form of
  an \<open>int\<close> \<open>N\<close>; it is 7 for \<open>content.7\<close> and \<open>-1\<close> for \<open>content\<close> and for
  \<open>content.x\<close>.
\<close>

theorem Version_from_VersionID:
  "(VersionID a = VersionID b \<longrightarrow> DsInfo_Version a = DsInfo_Version b)
   \<and> (CHR ''.'' \<notin> set (VersionID d) \<longrightarrow> DsInfo_Version d = - 1)
   \<and> (VersionID d = name @ ''.'' @ suf \<and> CHR ''.'' \<notin> set suf \<longrightarrow>
        DsInfo_Version d = (if valid_integer suf then integer_value suf else - 1))
   \<and> (VersionID d = name @ ''.'' @ fmt_d n \<and> - (2 ^ 63) \<le> n \<and> n < 2 ^ 63 \<longrightarrow>
        DsInfo_Version d = n)
   \<and> DsInfo_Version (DsInfo_zero\<lparr>VersionID := ''content.7''\<rparr>) = 7
   \<and> DsInfo_Version (DsInfo_zero\<lparr>VersionID := ''content''\<rparr>) = - 1
   \<and> DsInfo_Version (DsInfo_zero\<lparr>VersionID := ''content.x''\<rparr>) = - 1"
proof (intro conjI impI)
  assume "VersionID a = VersionID b"
  then show "DsInfo_Version a = DsInfo_Version b"
    unfolding DsInfo_Version_def by (simp only:)
next
  assume "CHR ''.'' \<notin> set (VersionID d)"
  then show "DsInfo_Version d = - 1"
    by (simp add: DsInfo_Version_def LastIndex_absent)
next
  assume h: "VersionID d = name @ ''.'' @ suf \<and> CHR ''.'' \<notin> set suf"
  then have v: "DsInfo_Version d = (case Atoi suf of Inl e \<Rightarrow> - 1 | Inr version \<Rightarrow> version)"
    using DsInfo_Version_split [of suf d name] by simp
  show "DsInfo_Version d = (if valid_integer suf then integer_value suf else - 1)"
  proof (cases "valid_integer suf")
    case True
    with v show ?thesis by (simp add: Atoi_valid)
  next
    case False
    then obtain e where "Atoi suf = Inl e"
      using Atoi_invalid by blast
    with v False show ?thesis by simp
  qed
next
  assume h: "VersionID d = name @ ''.'' @ fmt_d n \<and> - (2 ^ 63) \<le> n \<and> n < 2 ^ 63"
  then have "Atoi (fmt_d n) = Inr n"
    by (simp add: Atoi_fmt_d)
  with h show "DsInfo_Version d = n"
    using DsInfo_Version_split [of "fmt_d n" d name] dot_not_in_fmt_d [of n] by simp
next
  show "DsInfo_Version (DsInfo_zero\<lparr>VersionID := ''content.7''\<rparr>) = 7"
    by code_simp
next
  show "DsInfo_Version (DsInfo_zero\<lparr>VersionID := ''content''\<rparr>) = - 1"
    by code_simp
next
  show "DsInfo_Version (DsInfo_zero\<lparr>VersionID := ''content.x''\<rparr>) = - 1"
    by code_simp
qed

theorem Version_from_VersionID_witness:
  "DsInfo_Version (DsInfo_zero\<lparr>VersionID := ''a.b.-12''\<rparr>) = - 12
   \<and> DsInfo_Version (DsInfo_zero\<lparr>VersionID := ''v1.2x''\<rparr>) = - 1
   \<and> DsInfo_Version (DsInfo_zero\<lparr>VersionID := ''nodots''\<rparr>) = - 1
   \<and> DsInfo_Version (DsInfo_zero\<lparr>VersionID := ''content.'' @ fmt_d 40\<rparr>) = 40
   \<and> DsInfo_Version (DsInfo_zero\<lparr>VersionID := ''content.9223372036854775808''\<rparr>) = - 1"
proof -
  have 1: "valid_integer ''-12''" "integer_value ''-12'' = - 12" "\<not> valid_integer ''2x''"
    "\<not> valid_integer ''9223372036854775808''"
    by code_simp+
  show ?thesis
    using 1
      Version_from_VersionID [of DsInfo_zero DsInfo_zero
        "DsInfo_zero\<lparr>VersionID := ''a.b.-12''\<rparr>" "''a.b''" "''-12''" 40]
      Version_from_VersionID [of DsInfo_zero DsInfo_zero
        "DsInfo_zero\<lparr>VersionID := ''v1.2x''\<rparr>" "''v1''" "''2x''" 40]
      Version_from_VersionID [of DsInfo_zero DsInfo_zero
        "DsInfo_zero\<lparr>VersionID := ''nodots''\<rparr>" "''''" "''''" 40]
      Version_from_VersionID [of DsInfo_zero DsInfo_zero
        "DsInfo_zero\<lparr>VersionID := ''content.'' @ fmt_d 40\<rparr>" "''content''" "''''" 40]
      Version_from_VersionID [of DsInfo_zero DsInfo_zero
        "DsInfo_zero\<lparr>VersionID := ''content.9223372036854775808''\<rparr>" "''content''"
        "''9223372036854775808''" 40]
    by (simp add: DsInfo_zero_def)
qed

section \<open>Construction of the remote client\<close>

text \<open>
  Claim C10. \<open>NewRemote\<close> returns a client for every non-empty base URL (the URL itself
  when it ends in a slash, the URL with a slash appended otherwise), and for the empty
  URL it does not return: reading the byte at position \<open>len - 1 = -1\<close> of a string of
  length 0 is the out-of-range panic.
\<close>

theorem NewRemote_total_on_nonempty:
  "(fedoraPath \<noteq> [] \<longrightarrow>
      NewRemote fedoraPath ns =
        Inr \<lparr>hostpath = (if last fedoraPath = CHR ''/'' then fedoraPath else fedoraPath @ ''/''),
             namespace = ns\<rparr>)
   \<and> NewRemote [] ns = Inl (IndexOutOfRange (- 1) 0)"
  by (simp add: NewRemote_def last_conv_nth)

theorem NewRemote_total_on_nonempty_witness:
  "''http://localhost:8983/fedora'' \<noteq> []
   \<and> NewRemote ''http://localhost:8983/fedora'' ''temp:'' =
       Inr \<lparr>hostpath = ''http://localhost:8983/fedora/'', namespace = ''temp:''\<rparr>
   \<and> NewRemote [] ''temp:'' = Inl (IndexOutOfRange (- 1) 0)"
  using NewRemote_total_on_nonempty [of "''http://localhost:8983/fedora''" "''temp:''"]
  by simp

text \<open>
  Claim C8. For a non-empty base URL the client is built, its base path ends in a slash
  (the one of the URL, or one appended), and \<open>GetDatastream\<close> issues exactly one GET, to
  the plain concatenation of the base path, \<open>objects/\<close>, the namespace, the id,
  \<open>/datastreams/\<close>, the datastream name and \<open>/content\<close>.
\<close>

theorem GetDatastream_request_path:
  assumes "fedoraPath \<noteq> []"
  shows "\<exists>rf. NewRemote fedoraPath ns = Inr rf
            \<and> namespace rf = ns
            \<and> last (hostpath rf) = CHR ''/''
            \<and> hostpath rf = (if last fedoraPath = CHR ''/'' then fedoraPath else fedoraPath @ ''/'')
            \<and> requested (snd (remoteFedora_GetDatastream rf oid dsname w)) =
                requested w @ [hostpath rf @ ''objects/'' @ ns @ oid @ ''/datastreams/''
                                 @ dsname @ ''/content'']"
  using assms
  by (auto simp: NewRemote_def last_conv_nth remoteFedora_GetDatastream_def http_Get_def
        Body_Close_def Let_def split: sum.splits)

theorem GetDatastream_request_path_witness:
  "''http://h//'' \<noteq> []
   \<and> NewRemote ''http://h//'' ''temp:'' = Inr \<lparr>hostpath = ''http://h//'', namespace = ''temp:''\<rparr>
   \<and> requested (snd (remoteFedora_GetDatastream \<lparr>hostpath = ''http://h//'', namespace = ''temp:''\<rparr>
         ''/1'' ''content''
         \<lparr>server = server_always (Inl (LibError ''connection refused'')),
          requested = [], closed = []\<rparr>)) =
       [''http://h//objects/temp:/1/datastreams/content/content'']"
  using GetDatastream_request_path [of "''http://h//''" "''temp:''" "''/1''" "''content''"
      "\<lparr>server = server_always (Inl (LibError ''connection refused'')),
          requested = [], closed = []\<rparr>"]
  by (simp add: NewRemote_def)

section \<open>The remote client: statuses, errors and results\<close>

text \<open>
  Claim C1. When the GET of \<open>GetDatastream\<close> or of \<open>GetDatastreamInfo\<close> completes with a
  response whose status is not 200, the call closes the body of that response (the only
  connection it closes), hands no stream to the caller, and returns \<open>ErrNotFound\<close> for
  404, \<open>ErrNotAuthorized\<close> for 401 and otherwise the error whose message is
  \<open>Received status N from fedora\<close>, with \<open>N\<close> the status in decimal.
\<close>

theorem remote_non_success_status:
  "(server w (hostpath rf @ ''objects/'' @ namespace rf @ oid @ ''/datastreams/'' @ dsname
               @ ''/content'') = Inr r \<and> StatusCode r \<noteq> 200 \<longrightarrow>
      (\<exists>ci w'. remoteFedora_GetDatastream rf oid dsname w =
          ((None, ci,
            Some (if StatusCode r = 404 then ErrNotFound
                  else if StatusCode r = 401 then ErrNotAuthorized
                  else Errorf (''Received status '' @ fmt_d (StatusCode r) @ '' from fedora''))),
           w')
        \<and> closed w' = closed w @ [conn (Body r)]))
   \<and> (server w (hostpath rf @ ''objects/'' @ namespace rf @ oid @ ''/datastreams/'' @ dsname
               @ ''?format=xml'') = Inr r \<and> StatusCode r \<noteq> 200 \<longrightarrow>
      (\<exists>d w'. remoteFedora_GetDatastreamInfo Decode rf oid dsname w =
          ((d,
            Some (if StatusCode r = 404 then ErrNotFound
                  else if StatusCode r = 401 then ErrNotAuthorized
                  else Errorf (''Received status '' @ fmt_d (StatusCode r) @ '' from fedora''))),
           w')
        \<and> closed w' = closed w @ [conn (Body r)]))"
  by (simp add: remoteFedora_GetDatastream_def remoteFedora_GetDatastreamInfo_def
        http_Get_def Body_Close_def Let_def)

theorem remote_non_success_status_witness:
  "remoteFedora_GetDatastream \<lparr>hostpath = ''http://h/'', namespace = ''temp:''\<rparr> ''1'' ''content''
      \<lparr>server = server_always (Inr \<lparr>StatusCode = 500, Header = Map.empty,
                                      Body = \<lparr>conn = 7, payload = ''oops''\<rparr>\<rparr>),
       requested = [], closed = []\<rparr> =
     ((None, ContentInfo_zero, Some (Errorf ''Received status 500 from fedora'')),
      \<lparr>server = server_always (Inr \<lparr>StatusCode = 500, Header = Map.empty,
                                      Body = \<lparr>conn = 7, payload = ''oops''\<rparr>\<rparr>),
       requested = [''http://h/objects/temp:1/datastreams/content/content''], closed = [7]\<rparr>)
   \<and> fst (remoteFedora_GetDatastreamInfo (Decode_outcome (DsInfo_zero, None))
        \<lparr>hostpath = ''http://h/'', namespace = ''temp:''\<rparr> ''1'' ''content''
      \<lparr>server = server_always (Inr \<lparr>StatusCode = 500, Header = Map.empty,
                                      Body = \<lparr>conn = 7, payload = ''oops''\<rparr>\<rparr>),
       requested = [], closed = []\<rparr>) =
     (DsInfo_zero, Some (Errorf ''Received status 500 from fedora''))"
  using remote_non_success_status [of
      "\<lparr>server = server_always (Inr \<lparr>StatusCode = 500, Header = Map.empty,
                                      Body = \<lparr>conn = 7, payload = ''oops''\<rparr>\<rparr>),
       requested = [], closed = []\<rparr>"
      "\<lparr>hostpath = ''http://h/'', namespace = ''temp:''\<rparr>" "''1''" "''content''"
      "\<lparr>StatusCode = 500, Header = Map.empty, Body = \<lparr>conn = 7, payload = ''oops''\<rparr>\<rparr>"
      "Decode_outcome (DsInfo_zero, None)"]
  by (simp add: server_always_def remoteFedora_GetDatastream_def remoteFedora_GetDatastreamInfo_def
        http_Get_def Body_Close_def Let_def fmt_d_def decimal.simps digit_char_values)

text \<open>
  Claim C4. When the GET of \<open>GetDatastreamInfo\<close> is answered with status 200 and the
  decoder fills the struct without error, the call returns the decoded struct with no
  error; its \<open>Checksum\<close> is the empty string if the decoded one is exactly \<open>none\<close>, and
  the decoded one otherwise. No other field is touched.
\<close>

theorem GetDatastreamInfo_checksum_none:
  assumes "server w (hostpath rf @ ''objects/'' @ namespace rf @ oid @ ''/datastreams/'' @ dsname
               @ ''?format=xml'') = Inr r"
    and "StatusCode r = 200"
    and "Decode (payload (Body r)) DsInfo_zero = (d, None)"
  shows "fst (remoteFedora_GetDatastreamInfo Decode rf oid dsname w) =
           (d\<lparr>Checksum := (if Checksum d = ''none'' then [] else Checksum d)\<rparr>, None)"
  using assms
  by (simp add: remoteFedora_GetDatastreamInfo_def http_Get_def Body_Close_def Let_def)

theorem GetDatastreamInfo_checksum_none_witness:
  "fst (remoteFedora_GetDatastreamInfo
          (Decode_outcome (DsInfo_zero\<lparr>VersionID := ''content.2'', Checksum := ''none''\<rparr>, None))
          \<lparr>hostpath = ''http://h/'', namespace = ''temp:''\<rparr> ''1'' ''content''
          \<lparr>server = server_always (Inr \<lparr>StatusCode = 200, Header = Map.empty,
                                          Body = \<lparr>conn = 7, payload = ''<x/>''\<rparr>\<rparr>),
           requested = [], closed = []\<rparr>) =
     (DsInfo_zero\<lparr>VersionID := ''content.2''\<rparr>, None)
   \<and> fst (remoteFedora_GetDatastreamInfo
          (Decode_outcome (DsInfo_zero\<lparr>VersionID := ''content.2'', Checksum := ''None''\<rparr>, None))
          \<lparr>hostpath = ''http://h/'', namespace = ''temp:''\<rparr> ''1'' ''content''
          \<lparr>server = server_always (Inr \<lparr>StatusCode = 200, Header = Map.empty,
                                          Body = \<lparr>conn = 7, payload = ''<x/>''\<rparr>\<rparr>),
           requested = [], closed = []\<rparr>) =
     (DsInfo_zero\<lparr>VersionID := ''content.2'', Checksum := ''None''\<rparr>, None)"
  using
    GetDatastreamInfo_checksum_none [of
      "\<lparr>server = server_always (Inr \<lparr>StatusCode = 200, Header = Map.empty,
                                          Body = \<lparr>conn = 7, payload = ''<x/>''\<rparr>\<rparr>),
           requested = [], closed = []\<rparr>"
      "\<lparr>hostpath = ''http://h/'', namespace = ''temp:''\<rparr>" "''1''" "''content''"
      "\<lparr>StatusCode = 200, Header = Map.empty, Body = \<lparr>conn = 7, payload = ''<x/>''\<rparr>\<rparr>"
      "Decode_outcome (DsInfo_zero\<lparr>VersionID := ''content.2'', Checksum := ''none''\<rparr>, None)"
      "DsInfo_zero\<lparr>VersionID := ''content.2'', Checksum := ''none''\<rparr>"]
    GetDatastreamInfo_checksum_none [of
      "\<lparr>server = server_always (Inr \<lparr>StatusCode = 200, Header = Map.empty,
                                          Body = \<lparr>conn = 7, payload = ''<x/>''\<rparr>\<rparr>),
           requested = [], closed = []\<rparr>"
      "\<lparr>hostpath = ''http://h/'', namespace = ''temp:''\<rparr>" "''1''" "''content''"
      "\<lparr>StatusCode = 200, Header = Map.empty, Body = \<lparr>conn = 7, payload = ''<x/>''\<rparr>\<rparr>"
      "Decode_outcome (DsInfo_zero\<lparr>VersionID := ''content.2'', Checksum := ''None''\<rparr>, None)"
      "DsInfo_zero\<lparr>VersionID := ''content.2'', Checksum := ''None''\<rparr>"]
  by (simp add: server_always_def Decode_outcome_def DsInfo_zero_def)

text \<open>
  Every error path of the remote client but one returns zero values next to its error:
  \<open>GetDatastream\<close> always returns a nil stream and the zero \<open>ContentInfo\<close> with an
  error, and \<open>GetDatastreamInfo\<close> returns the zero \<open>DsInfo\<close> after a network-level
  failure and after a status other than 200.
\<close>

lemma remote_error_zero_results:
  "(\<forall>s ci e w'. remoteFedora_GetDatastream rf oid dsname w = ((s, ci, Some e), w') \<longrightarrow>
        s = None \<and> ci = ContentInfo_zero)
   \<and> (\<forall>d e w'. remoteFedora_GetDatastreamInfo Decode rf oid dsname w = ((d, e), w') \<longrightarrow>
        (case server w (hostpath rf @ ''objects/'' @ namespace rf @ oid @ ''/datastreams/''
                          @ dsname @ ''?format=xml'') of
           Inl err \<Rightarrow> d = DsInfo_zero \<and> e = Some err
         | Inr r \<Rightarrow> StatusCode r = 200 \<or> (d = DsInfo_zero \<and> e \<noteq> None)))"
  by (auto simp: remoteFedora_GetDatastream_def remoteFedora_GetDatastreamInfo_def
        http_Get_def Body_Close_def Let_def split: sum.splits prod.splits if_splits)

text \<open>
  Claim C2 holds on those paths and fails on the remaining one, the decode failure, where
  the code returns \<open>info, err\<close> as the decoder left them. The server answers 200 with a
  document that ends after its first element, \<open><datastreamProfile><dsLabel>x</dsLabel>\<close>.
  The decoder has stored the label by the time it meets the end of the input, so it
  leaves a struct whose \<open>Label\<close> is \<open>x\<close> and returns its syntax error;
  \<open>GetDatastreamInfo\<close> returns that struct, which is not the zero value, next to that
  error.
\<close>

theorem remote_error_partial_DsInfo:
  "fst (remoteFedora_GetDatastreamInfo
          (Decode_outcome (DsInfo_zero\<lparr>Label := ''x''\<rparr>,
                           Some (LibError ''XML syntax error on line 1: unexpected EOF'')))
          \<lparr>hostpath = ''http://h/'', namespace = ''temp:''\<rparr> ''1'' ''content''
          \<lparr>server = server_always (Inr \<lparr>StatusCode = 200, Header = Map.empty,
               Body = \<lparr>conn = 7, payload = ''<datastreamProfile><dsLabel>x</dsLabel>''\<rparr>\<rparr>),
           requested = [], closed = []\<rparr>) =
     (DsInfo_zero\<lparr>Label := ''x''\<rparr>,
      Some (LibError ''XML syntax error on line 1: unexpected EOF''))
   \<and> DsInfo_zero\<lparr>Label := ''x''\<rparr> \<noteq> DsInfo_zero"
  by (simp add: remoteFedora_GetDatastreamInfo_def http_Get_def Body_Close_def Let_def
        server_always_def Decode_outcome_def DsInfo_zero_def)

section \<open>The in-memory store\<close>

text \<open>
  Claim C5, as stated, fails. \<open>Set\<close> is called with an \<open>info\<close> whose \<open>Size\<close> is already
  \<open>999\<close> and with the five bytes \<open>hello\<close>; \<open>GetDatastream\<close> then reports the length
  \<open>999\<close>, the stored \<open>Size\<close>, not the decimal length \<open>5\<close> of the bytes.
\<close>

theorem Set_then_GetDatastream_Length_counterexample:
  "Length (fst (snd (TestFedora_GetDatastream
       (TestFedora_Set NewTestFedora ''1'' ''content'' (DsInfo_zero\<lparr>Size := ''999''\<rparr>) ''hello'')
       ''1'' ''content''))) = ''999''
   \<and> Length (fst (snd (TestFedora_GetDatastream
       (TestFedora_Set NewTestFedora ''1'' ''content'' (DsInfo_zero\<lparr>Size := ''999''\<rparr>) ''hello'')
       ''1'' ''content''))) \<noteq> fmt_d (int (length ''hello''))"
  by (simp add: TestFedora_GetDatastream_def TestFedora_Set_def Let_def NewTestFedora_def
       DsInfo_zero_def ContentInfo_zero_def fmt_d_def decimal.simps digit_char_values)

text \<open>
  Claim C5, amended. In every store, \<open>Set(id, name, info, bytes)\<close> followed by
  \<open>GetDatastream(id, name)\<close> returns no error and a stream whose bytes, read to the end,
  are exactly \<open>bytes\<close>; \<open>Type\<close> is \<open>text/plain\<close>; \<open>Length\<close> is the decimal length of
  \<open>bytes\<close> when \<open>info.Size\<close> is empty, and \<open>info.Size\<close> itself otherwise. The answer
  does not depend on what the store held before.
\<close>

theorem Set_then_GetDatastream:
  "TestFedora_GetDatastream (TestFedora_Set tf oid dsname dsinfo val) oid dsname =
     (Some (NopCloser val),
      ContentInfo_zero\<lparr>Type := ''text/plain'',
                        Length := (if Size dsinfo = [] then fmt_d (int (length val))
                                   else Size dsinfo)\<rparr>,
      None)
   \<and> ReadAll (NopCloser val) = val
   \<and> TestFedora_GetDatastream (TestFedora_Set tf oid dsname dsinfo val) oid dsname =
       TestFedora_GetDatastream (TestFedora_Set NewTestFedora oid dsname dsinfo val) oid dsname"
  by (simp add: TestFedora_GetDatastream_def TestFedora_Set_def Let_def NewTestFedora_def)

theorem Set_then_GetDatastream_witness:
  "TestFedora_GetDatastream
       (TestFedora_Set (TestFedora_Set NewTestFedora ''1'' ''content'' DsInfo_zero ''old bytes'')
          ''1'' ''content'' DsInfo_zero ''hello'')
       ''1'' ''content'' =
     (Some (NopCloser ''hello''),
      \<lparr>Type = ''text/plain'', Length = ''5'', Disposition = [], MD5 = [], SHA256 = []\<rparr>, None)"
  using Set_then_GetDatastream [of
      "TestFedora_Set NewTestFedora ''1'' ''content'' DsInfo_zero ''old bytes''"
      "''1''" "''content''" DsInfo_zero "''hello''"]
  by (simp add: DsInfo_zero_def ContentInfo_zero_def fmt_d_def decimal.simps digit_char_values)

text \<open>
  Claim C6. \<open>Set\<close> followed by \<open>GetDatastreamInfo\<close> under the same id and name returns,
  with no error, the stored \<open>info\<close>: \<open>State\<close>, \<open>VersionID\<close>, \<open>Location\<close>,
  \<open>LocationType\<close> and \<open>Size\<close> are the given ones where these are not empty, and where
  they are empty \<open>A\<close>, the name followed by \<open>.0\<close>, id \<open>+\<close> name \<open>+\<close> the stored
  \<open>VersionID\<close>, \<open>INTERNAL_ID\<close> and the decimal length of the content; \<open>Label\<close>,
  \<open>Checksum\<close> and \<open>MIMEType\<close> are stored as given. With an empty \<open>VersionID\<close> the stored
  one is the name followed by \<open>.0\<close> and \<open>Version()\<close> is 0.
\<close>

theorem Set_backfills_defaults:
  "(\<exists>stored. TestFedora_GetDatastreamInfo (TestFedora_Set tf oid dsname dsinfo val) oid dsname
                = (stored, None)
      \<and> State stored = (if State dsinfo = [] then ''A'' else State dsinfo)
      \<and> VersionID stored = (if VersionID dsinfo = [] then dsname @ ''.0'' else VersionID dsinfo)
      \<and> Location stored =
          (if Location dsinfo = [] then oid @ ''+'' @ dsname @ ''+'' @ VersionID stored
           else Location dsinfo)
      \<and> LocationType stored =
          (if LocationType dsinfo = [] then ''INTERNAL_ID'' else LocationType dsinfo)
      \<and> Size stored = (if Size dsinfo = [] then fmt_d (int (length val)) else Size dsinfo)
      \<and> Label stored = Label dsinfo
      \<and> Checksum stored = Checksum dsinfo
      \<and> MIMEType stored = MIMEType dsinfo
      \<and> (VersionID dsinfo = [] \<longrightarrow>
            VersionID stored = dsname @ ''.0'' \<and> DsInfo_Version stored = 0))"
proof -
  have v0: "DsInfo_Version d = 0" if "VersionID d = dsname @ ''.0''" for d
  proof -
    have "Atoi ''0'' = Inr 0"
      by code_simp
    then show ?thesis
      using DsInfo_Version_split [of "''0''" d dsname] that by simp
  qed
  show ?thesis
    by (simp add: TestFedora_GetDatastreamInfo_def TestFedora_Set_def Let_def v0)
qed

theorem Set_backfills_defaults_witness:
  "TestFedora_GetDatastreamInfo
       (TestFedora_Set NewTestFedora ''1'' ''content'' (DsInfo_zero\<lparr>Label := ''L''\<rparr>) ''hello'')
       ''1'' ''content'' =
     (\<lparr>Label = ''L'', VersionID = ''content.0'', State = ''A'', Checksum = [], MIMEType = [],
       Location = ''1+content+content.0'', LocationType = ''INTERNAL_ID'', Size = ''5''\<rparr>, None)
   \<and> DsInfo_Version (fst (TestFedora_GetDatastreamInfo
       (TestFedora_Set NewTestFedora ''1'' ''content'' (DsInfo_zero\<lparr>Label := ''L''\<rparr>) ''hello'')
       ''1'' ''content'')) = 0"
  using Set_backfills_defaults [of NewTestFedora "''1''" "''content''"
      "DsInfo_zero\<lparr>Label := ''L''\<rparr>" "''hello''"]
  by (auto simp: DsInfo_zero_def fmt_d_def decimal.simps digit_char_values)

text \<open>
  Claim C7, as stated, fails. One \<open>Set\<close> is made on the empty store, for the pair
  \<open>(1, a/b)\<close>. Nothing has been stored for the different pair \<open>(1/a, b)\<close>, yet both
  lookups under that pair succeed: the two pairs have the same key \<open>1/a/b\<close>.
\<close>

theorem unset_pair_found_counterexample:
  "(''1/a'', ''b'') \<noteq> (''1'', ''a/b'')
   \<and> snd (TestFedora_GetDatastreamInfo
        (Set_all NewTestFedora [(''1'', ''a/b'', DsInfo_zero, ''hello'')]) ''1/a'' ''b'') = None
   \<and> snd (snd (TestFedora_GetDatastream
        (Set_all NewTestFedora [(''1'', ''a/b'', DsInfo_zero, ''hello'')]) ''1/a'' ''b'')) = None"
  by (simp add: TestFedora_GetDatastreamInfo_def TestFedora_GetDatastream_def TestFedora_Set_def
        Let_def NewTestFedora_def)

text \<open>
  Claim C7, amended. If the store holds nothing under the key \<open>id/name\<close>, and then any
  sequence of \<open>Set\<close> calls is made of which none has that key (whatever its pair), both
  \<open>GetDatastream(id, name)\<close> and \<open>GetDatastreamInfo(id, name)\<close> return \<open>ErrNotFound\<close>
  with a nil stream, the zero \<open>ContentInfo\<close> and the zero \<open>DsInfo\<close>.
\<close>

theorem absent_key_NotFound:
  assumes "data tf (oid @ ''/'' @ dsname) = None"
    and "\<forall>c \<in> set calls. fst c @ ''/'' @ fst (snd c) \<noteq> oid @ ''/'' @ dsname"
  shows "TestFedora_GetDatastream (Set_all tf calls) oid dsname =
           (None, ContentInfo_zero, Some ErrNotFound)
         \<and> TestFedora_GetDatastreamInfo (Set_all tf calls) oid dsname =
           (DsInfo_zero, Some ErrNotFound)"
  using assms Set_all_other_keys [of calls "oid @ ''/'' @ dsname" tf]
  by (simp add: TestFedora_GetDatastream_def TestFedora_GetDatastreamInfo_def Let_def)

theorem absent_key_NotFound_witness:
  "TestFedora_GetDatastream
       (Set_all NewTestFedora [(''1'', ''a/b'', DsInfo_zero, ''hello''), (''2'', ''c'', DsInfo_zero, [])])
       ''1'' ''a'' = (None, ContentInfo_zero, Some ErrNotFound)
   \<and> TestFedora_GetDatastreamInfo
       (Set_all NewTestFedora [(''1'', ''a/b'', DsInfo_zero, ''hello''), (''2'', ''c'', DsInfo_zero, [])])
       ''1'' ''a'' = (DsInfo_zero, Some ErrNotFound)"
  using absent_key_NotFound [of NewTestFedora "''1''" "''a''"
      "[(''1'', ''a/b'', DsInfo_zero, ''hello''), (''2'', ''c'', DsInfo_zero, [])]"]
  by (simp add: NewTestFedora_def)



end
